theory Spec2Isabelle
  imports Main
begin

section \<open>Values crossing the HTTP boundary\<close>

text \<open>
  The handlers of the user controller read fields of a JSON body, of the query string and
  of the route parameters. A field is absent (\<open>undefined\<close>), \<open>null\<close> or a string;
  other JSON types are outside the model. The test \<open>!x\<close> of the source holds for an
  absent field, for \<open>null\<close> and for the empty string.
\<close>

datatype jsval = Undefined | Null | Str string

fun falsy :: "jsval \<Rightarrow> bool" where
  "falsy Undefined = True"
| "falsy Null = True"
| "falsy (Str s) = (s = [])"

text \<open>The string carried by a value; it is read only where \<open>falsy\<close> has been excluded.\<close>

fun text_of :: "jsval \<Rightarrow> string" where
  "text_of (Str s) = s"
| "text_of Undefined = []"
| "text_of Null = []"

record request =
  body_sessionId :: jsval
  body_firstName :: jsval
  body_lastName :: jsval
  body_profilePictureUrl :: jsval
  body_username :: jsval
  body_email :: jsval
  body_cognitoId :: jsval
  body_status :: jsval
  params_cognitoId :: string
  query_session_id :: jsval
  header_stripe_signature :: "string option"
  raw_body :: string

section \<open>The user table\<close>

text \<open>
  The Prisma schema is not part of the sources. The columns are the ones the controller
  reads and writes. The controller calls \<open>findUnique\<close> on \<open>cognitoId\<close> and on
  \<open>email\<close>, so both carry a unique constraint; \<open>updateUserAfterPayment\<close> creates a
  row without a \<open>cognitoId\<close>, so that column is nullable. Whether \<open>username\<close> is
  unique is a parameter (\<open>username_unique\<close> below). The surrogate key and the
  timestamps of a row are left out. The table is the list of its rows in insertion order.
\<close>

record user =
  cognitoId :: "string option"
  email :: "string option"
  username :: string
  firstName :: "string option"
  lastName :: "string option"
  profilePictureUrl :: "string option"
  subscriptionStatus :: string

type_synonym table = "user list"

section \<open>Thrown values, the console and the response\<close>

datatype js_error =
    StripeError string
  | ConnectionError
  | ValidationError
  | RecordNotFound
  | UniqueConstraintFailed

datatype log_entry =
    LogError string js_error
  | LogInfo string

text \<open>
  One constructor for each shape of body the controller sends. \<open>WebhookErrorText e\<close> is the
  plain text \<open>Webhook Error: ${error.message}\<close> for the thrown value \<open>e\<close>, and
  \<open>MessageError m e\<close> is \<open>{message: m + error.message}\<close>.
\<close>

datatype body =
    SuccessFalse string
  | SuccessUser user
  | ErrorBody string
  | MessageBody string
  | MessageError string js_error
  | MessageUser string user
  | Received
  | WebhookErrorText js_error
  | HasSubscription bool
  | CognitoIdBody string
  | SubscriptionStatusBody string
  | UserJson "user option"
  | UsersJson "user list"

record outcome =
  store :: table
  http_status :: nat
  sent :: body
  logged :: "log_entry list"

definition respond :: "table \<Rightarrow> nat \<Rightarrow> body \<Rightarrow> log_entry list \<Rightarrow> outcome" where
  "respond t c b l = \<lparr>store = t, http_status = c, sent = b, logged = l\<rparr>"

section \<open>The payment provider and the environment\<close>

record customer_details =
  cd_email :: "string option"

record session =
  payment_status :: string
  client_reference_id :: "string option"
  session_customer_details :: "customer_details option"

record event =
  event_type :: string
  data_object :: session

text \<open>
  The Stripe client and the database connection are outside the sources; they are the
  parameters of every handler. A call of the client returns \<open>Inl e\<close> where it throws \<open>e\<close>.
  \<open>constructEvent\<close> takes the raw body, the signature header and the webhook secret.
\<close>

record env =
  sessions_retrieve :: "jsval \<Rightarrow> js_error + session"
  constructEvent :: "string \<Rightarrow> string option \<Rightarrow> string option \<Rightarrow> js_error + event"
  customers_list :: "jsval \<Rightarrow> js_error + string list"
  subscriptions_list :: "string \<Rightarrow> js_error + string list"
  STRIPE_WEBHOOK_SECRET :: "string option"
  db_online :: bool
  username_unique :: bool

section \<open>The Prisma operations the controller uses\<close>

text \<open>
  A \<open>where\<close> clause on a unique column needs a string: an absent or \<open>null\<close> value is
  refused by the client's validation. Every operation throws when the database cannot be
  reached.
\<close>

definition findUnique ::
  "env \<Rightarrow> (user \<Rightarrow> string option) \<Rightarrow> jsval \<Rightarrow> table \<Rightarrow> js_error + user option" where
  "findUnique E col v t =
     (if \<not> db_online E then Inl ConnectionError
      else case v of
             Str s \<Rightarrow> Inr (find (\<lambda>u. col u = Some s) t)
           | _ \<Rightarrow> Inl ValidationError)"

definition findMany :: "env \<Rightarrow> table \<Rightarrow> js_error + user list" where
  "findMany E t = (if \<not> db_online E then Inl ConnectionError else Inr t)"

text \<open>The row a unique \<open>where\<close> clause selects is rewritten in place.\<close>

fun update_row :: "(user \<Rightarrow> bool) \<Rightarrow> (user \<Rightarrow> user) \<Rightarrow> table \<Rightarrow> (user \<times> table) option" where
  "update_row P f [] = None"
| "update_row P f (u # us) =
     (if P u then Some (f u, f u # us)
      else case update_row P f us of
             None \<Rightarrow> None
           | Some (r, us') \<Rightarrow> Some (r, u # us'))"

definition update ::
  "env \<Rightarrow> (user \<Rightarrow> string option) \<Rightarrow> jsval \<Rightarrow> (user \<Rightarrow> user) \<Rightarrow> table \<Rightarrow> js_error + user \<times> table" where
  "update E col v f t =
     (if \<not> db_online E then Inl ConnectionError
      else case v of
             Str s \<Rightarrow> (case update_row (\<lambda>u. col u = Some s) f t of
                         None \<Rightarrow> Inl RecordNotFound
                       | Some r \<Rightarrow> Inr r)
           | _ \<Rightarrow> Inl ValidationError)"

definition violates_unique :: "env \<Rightarrow> user \<Rightarrow> table \<Rightarrow> bool" where
  "violates_unique E n t =
     ((cognitoId n \<noteq> None \<and> list_ex (\<lambda>u. cognitoId u = cognitoId n) t)
      \<or> (email n \<noteq> None \<and> list_ex (\<lambda>u. email u = email n) t)
      \<or> (username_unique E \<and> list_ex (\<lambda>u. username u = username n) t))"

definition create :: "env \<Rightarrow> user \<Rightarrow> table \<Rightarrow> js_error + user \<times> table" where
  "create E n t =
     (if \<not> db_online E then Inl ConnectionError
      else if violates_unique E n t then Inl UniqueConstraintFailed
      else Inr (n, t @ [n]))"

text \<open>
  A field of \<open>data\<close>: an absent field leaves the column of an existing row as it is and
  leaves the column of a new row empty; \<open>null\<close> empties it; a string is stored.
\<close>

fun assign :: "jsval \<Rightarrow> string option \<Rightarrow> string option" where
  "assign Undefined old = old"
| "assign Null old = None"
| "assign (Str s) old = Some s"

definition column_of :: "jsval \<Rightarrow> string option" where
  "column_of v = assign v None"

section \<open>The handlers\<close>

text \<open>
  Each handler takes the environment, the request and the table, and returns the table it
  leaves, the response it sends and the lines it writes to the console.
\<close>

definition verifyStripeSession :: "env \<Rightarrow> jsval \<Rightarrow> session option \<times> log_entry list" where
  "verifyStripeSession E sid =
     (case sessions_retrieve E sid of
        Inr s \<Rightarrow> (Some s, [])
      | Inl e \<Rightarrow> (None, [LogError ''Stripe session retrieval failed:'' e]))"

text \<open>\<open>session.customer_details?.email\<close>\<close>

definition customer_email :: "session \<Rightarrow> string option" where
  "customer_email s =
     (case session_customer_details s of None \<Rightarrow> None | Some cd \<Rightarrow> cd_email cd)"

text \<open>
  The \<open>data\<close> both payment handlers write to an existing row:
  \<open>{firstName, lastName, profilePictureUrl, subscriptionStatus: 'active'}\<close>.
\<close>

definition profile_data :: "request \<Rightarrow> user \<Rightarrow> user" where
  "profile_data req u =
     u\<lparr>firstName := assign (body_firstName req) (firstName u),
       lastName := assign (body_lastName req) (lastName u),
       profilePictureUrl := assign (body_profilePictureUrl req) (profilePictureUrl u),
       subscriptionStatus := ''active''\<rparr>"

definition updateAfterPayment :: "env \<Rightarrow> request \<Rightarrow> table \<Rightarrow> outcome" where
  "updateAfterPayment E req t =
     (if falsy (body_sessionId req) \<or> falsy (body_firstName req) \<or> falsy (body_lastName req)
      then respond t 400 (SuccessFalse ''Missing required fields.'') []
      else
        case verifyStripeSession E (body_sessionId req) of
          (None, l) \<Rightarrow> respond t 400 (SuccessFalse ''Invalid or unpaid session ID.'') l
        | (Some s, l) \<Rightarrow>
            (if payment_status s \<noteq> ''paid''
             then respond t 400 (SuccessFalse ''Invalid or unpaid session ID.'') l
             else
              (case client_reference_id s of
                None \<Rightarrow> respond t 400 (SuccessFalse ''Cognito ID not found in session.'') l
              | Some c \<Rightarrow>
                 (if c = []
                  then respond t 400 (SuccessFalse ''Cognito ID not found in session.'') l
                  else
                   (case findUnique E cognitoId (Str c) t of
                      Inl e \<Rightarrow>
                        respond t 500 (SuccessFalse ''Internal server error.'')
                          (l @ [LogError ''Error updating user:'' e])
                    | Inr (Some _) \<Rightarrow>
                        (case update E cognitoId (Str c) (profile_data req) t of
                           Inl e \<Rightarrow>
                             respond t 500 (SuccessFalse ''Internal server error.'')
                               (l @ [LogError ''Error updating user:'' e])
                         | Inr (u, t') \<Rightarrow> respond t' 200 (SuccessUser u) l)
                    | Inr None \<Rightarrow>
                        (case create E
                                \<lparr>cognitoId = Some c,
                                 email = Some (c @ ''@example.com''),
                                 username = ''user_'' @ c,
                                 firstName = column_of (body_firstName req),
                                 lastName = column_of (body_lastName req),
                                 profilePictureUrl = column_of (body_profilePictureUrl req),
                                 subscriptionStatus = ''active''\<rparr> t of
                           Inl e \<Rightarrow>
                             respond t 500 (SuccessFalse ''Internal server error.'')
                               (l @ [LogError ''Error updating user:'' e])
                         | Inr (u, t') \<Rightarrow> respond t' 200 (SuccessUser u) l))))))"

definition checkSubscriptionStatus :: "env \<Rightarrow> request \<Rightarrow> table \<Rightarrow> outcome" where
  "checkSubscriptionStatus E req t =
     (case customers_list E (body_email req) of
        Inl e \<Rightarrow>
          respond t 500 (ErrorBody ''Failed to check subscription status'')
            [LogError ''Error checking subscription status:'' e]
      | Inr [] \<Rightarrow> respond t 200 (HasSubscription False) []
      | Inr (customerId # _) \<Rightarrow>
          (case subscriptions_list E customerId of
             Inl e \<Rightarrow>
               respond t 500 (ErrorBody ''Failed to check subscription status'')
                 [LogError ''Error checking subscription status:'' e]
           | Inr subs \<Rightarrow> respond t 200 (HasSubscription (subs \<noteq> [])) []))"

definition getUsers :: "env \<Rightarrow> request \<Rightarrow> table \<Rightarrow> outcome" where
  "getUsers E req t =
     (case findMany E t of
        Inl e \<Rightarrow> respond t 500 (MessageError ''Error retrieving users: '' e) []
      | Inr us \<Rightarrow> respond t 200 (UsersJson us) [])"

definition getUser :: "env \<Rightarrow> request \<Rightarrow> table \<Rightarrow> outcome" where
  "getUser E req t =
     (case findUnique E cognitoId (Str (params_cognitoId req)) t of
        Inl e \<Rightarrow> respond t 500 (MessageError ''Error retrieving user: '' e) []
      | Inr u \<Rightarrow> respond t 200 (UserJson u) [])"

definition handleStripeWebhook :: "env \<Rightarrow> request \<Rightarrow> table \<Rightarrow> outcome" where
  "handleStripeWebhook E req t =
     (case constructEvent E (raw_body req) (header_stripe_signature req)
             (STRIPE_WEBHOOK_SECRET E) of
        Inl e \<Rightarrow> respond t 400 (WebhookErrorText e) [LogError ''Webhook error:'' e]
      | Inr ev \<Rightarrow>
          if event_type ev = ''checkout.session.completed''
          then
            (case customer_email (data_object ev) of
               None \<Rightarrow> respond t 200 Received []
             | Some customerEmail \<Rightarrow>
                (if customerEmail = []
                 then respond t 200 Received []
                 else
                  (case update E email (Str customerEmail)
                          (\<lambda>u. u\<lparr>subscriptionStatus := ''active''\<rparr>) t of
                     Inl e \<Rightarrow>
                       respond t 400 (WebhookErrorText e) [LogError ''Webhook error:'' e]
                   | Inr (u, t') \<Rightarrow>
                       respond t' 200 Received
                         [LogInfo ''User subscription status updated to active.''])))
          else respond t 200 Received [])"

definition fetchSessionData :: "env \<Rightarrow> request \<Rightarrow> table \<Rightarrow> outcome" where
  "fetchSessionData E req t =
     (if falsy (query_session_id req)
      then respond t 400 (ErrorBody ''Session ID is required.'') []
      else
        case sessions_retrieve E (query_session_id req) of
          Inl e \<Rightarrow>
            respond t 500 (ErrorBody ''Failed to fetch session data.'')
              [LogError ''Error fetching session data:'' e]
        | Inr s \<Rightarrow>
            (case client_reference_id s of
               None \<Rightarrow> respond t 400 (ErrorBody ''Cognito ID not found in session.'') []
             | Some c \<Rightarrow>
                 if c = []
                 then respond t 400 (ErrorBody ''Cognito ID not found in session.'') []
                 else respond t 200 (CognitoIdBody c) []))"

definition updateUserStatus :: "env \<Rightarrow> request \<Rightarrow> table \<Rightarrow> outcome" where
  "updateUserStatus E req t =
     (if falsy (body_cognitoId req) \<or> falsy (body_status req)
      then respond t 400 (MessageBody ''Missing cognitoId or status'') []
      else
        case update E cognitoId (body_cognitoId req)
               (\<lambda>u. u\<lparr>subscriptionStatus := text_of (body_status req)\<rparr>) t of
          Inl e \<Rightarrow>
            respond t 500 (MessageBody ''Internal Server Error'')
              [LogError ''Error updating user status:'' e]
        | Inr (u, t') \<Rightarrow>
            respond t' 200 (MessageUser ''User status updated successfully'' u) [])"

definition updateUserAfterPayment :: "env \<Rightarrow> request \<Rightarrow> table \<Rightarrow> outcome" where
  "updateUserAfterPayment E req t =
     (if falsy (body_sessionId req) \<or> falsy (body_firstName req)
         \<or> falsy (body_lastName req) \<or> falsy (body_username req)
      then respond t 400
             (ErrorBody ''Session ID, first name, last name, and username are required.'') []
      else
        case sessions_retrieve E (body_sessionId req) of
          Inl e \<Rightarrow>
            respond t 500 (ErrorBody ''Internal Server Error'')
              [LogError ''Error updating user after payment:'' e]
        | Inr s \<Rightarrow>
            (case customer_email s of
               None \<Rightarrow> respond t 400 (ErrorBody ''Customer email not found in session.'') []
             | Some customerEmail \<Rightarrow>
                 if customerEmail = []
                 then respond t 400 (ErrorBody ''Customer email not found in session.'') []
                 else
                   (case findUnique E email (Str customerEmail) t of
                     Inl e \<Rightarrow>
                       respond t 500 (ErrorBody ''Internal Server Error'')
                         [LogError ''Error updating user after payment:'' e]
                   | Inr None \<Rightarrow>
                       (case create E
                               \<lparr>cognitoId = None,
                                email = Some customerEmail,
                                username = text_of (body_username req),
                                firstName = column_of (body_firstName req),
                                lastName = column_of (body_lastName req),
                                profilePictureUrl = column_of (body_profilePictureUrl req),
                                subscriptionStatus = ''active''\<rparr> t of
                          Inl e \<Rightarrow>
                            respond t 500 (ErrorBody ''Internal Server Error'')
                              [LogError ''Error updating user after payment:'' e]
                        | Inr (u, t') \<Rightarrow> respond t' 200 (SuccessUser u) [])
                   | Inr (Some _) \<Rightarrow>
                       (case update E email (Str customerEmail) (profile_data req) t of
                          Inl e \<Rightarrow>
                            respond t 500 (ErrorBody ''Internal Server Error'')
                              [LogError ''Error updating user after payment:'' e]
                        | Inr (u, t') \<Rightarrow> respond t' 200 (SuccessUser u) []))))"

definition checkUserStatus :: "env \<Rightarrow> request \<Rightarrow> table \<Rightarrow> outcome" where
  "checkUserStatus E req t =
     (case findUnique E email (body_email req) t of
        Inl e \<Rightarrow>
          respond t 500 (ErrorBody ''Internal Server Error'')
            [LogError ''Error checking subscription status:'' e]
      | Inr (Some u) \<Rightarrow> respond t 200 (SubscriptionStatusBody (subscriptionStatus u)) []
      | Inr None \<Rightarrow> respond t 404 (ErrorBody ''User not found'') [])"

section \<open>A concrete environment and concrete requests\<close>

text \<open>
  The scenarios of the design: session \<open>sess_1\<close> is paid, carries the reference id
  \<open>u42\<close> and the customer email \<open>ada@example.com\<close>; \<open>sess_unpaid\<close> is the same
  checkout before payment; \<open>sess_email_only\<close> is paid and has no reference id;
  \<open>sess_ref_only\<close> is paid and has no customer details. The
  webhook signature \<open>v1=good\<close> is the only one that verifies.
\<close>

definition ada_details :: "customer_details option" where
  "ada_details = Some \<lparr>cd_email = Some ''ada@example.com''\<rparr>"

definition sess_1 :: session where
  "sess_1 = \<lparr>payment_status = ''paid'', client_reference_id = Some ''u42'',
             session_customer_details = ada_details\<rparr>"

definition sess_unpaid :: session where
  "sess_unpaid = \<lparr>payment_status = ''unpaid'', client_reference_id = Some ''u42'',
                  session_customer_details = ada_details\<rparr>"

definition sess_email_only :: session where
  "sess_email_only = \<lparr>payment_status = ''paid'', client_reference_id = None,
                      session_customer_details = ada_details\<rparr>"

definition sess_ref_only :: session where
  "sess_ref_only = \<lparr>payment_status = ''paid'', client_reference_id = Some ''u42'',
                    session_customer_details = None\<rparr>"

definition scenario_env :: env where
  "scenario_env =
     \<lparr>sessions_retrieve =
        (\<lambda>sid. if sid = Str ''sess_1'' then Inr sess_1
               else if sid = Str ''sess_unpaid'' then Inr sess_unpaid
               else if sid = Str ''sess_email_only'' then Inr sess_email_only
               else if sid = Str ''sess_ref_only'' then Inr sess_ref_only
               else Inl (StripeError ''No such checkout.session'')),
      constructEvent =
        (\<lambda>payload sig secret.
           if sig = Some ''v1=good'' \<and> secret = Some ''whsec''
           then (if payload = ''completed'' then
                   Inr \<lparr>event_type = ''checkout.session.completed'', data_object = sess_1\<rparr>
                 else if payload = ''completed-no-email'' then
                   Inr \<lparr>event_type = ''checkout.session.completed'',
                        data_object = sess_1\<lparr>session_customer_details := None\<rparr>\<rparr>
                 else
                   Inr \<lparr>event_type = ''invoice.paid'', data_object = sess_1\<rparr>)
           else Inl (StripeError ''No signatures found matching the expected signature'')),
      customers_list = (\<lambda>e. if e = Str ''ada@example.com'' then Inr [''cus_1''] else Inr []),
      subscriptions_list = (\<lambda>c. if c = ''cus_1'' then Inr [''sub_1''] else Inr []),
      STRIPE_WEBHOOK_SECRET = Some ''whsec'',
      db_online = True,
      username_unique = True\<rparr>"

definition no_request :: request where
  "no_request =
     \<lparr>body_sessionId = Undefined, body_firstName = Undefined, body_lastName = Undefined,
      body_profilePictureUrl = Undefined, body_username = Undefined, body_email = Undefined,
      body_cognitoId = Undefined, body_status = Undefined, params_cognitoId = [],
      query_session_id = Undefined, header_stripe_signature = None, raw_body = []\<rparr>"

definition ada_form :: "string \<Rightarrow> request" where
  "ada_form sid =
     no_request\<lparr>body_sessionId := Str sid, body_firstName := Str ''Ada'',
                body_lastName := Str ''Lovelace'', body_username := Str ''ada''\<rparr>"

definition webhook_delivery :: "string \<Rightarrow> string \<Rightarrow> request" where
  "webhook_delivery sig payload =
     no_request\<lparr>header_stripe_signature := Some sig, raw_body := payload\<rparr>"

definition ada_row :: user where
  "ada_row =
     \<lparr>cognitoId = Some ''u42'', email = Some ''u42@example.com'', username = ''user_u42'',
      firstName = Some ''Ada'', lastName = Some ''Lovelace'', profilePictureUrl = None,
      subscriptionStatus = ''active''\<rparr>"

definition ada_email_row :: user where
  "ada_email_row =
     \<lparr>cognitoId = None, email = Some ''ada@example.com'', username = ''ada'',
      firstName = Some ''Ada'', lastName = Some ''Lovelace'', profilePictureUrl = None,
      subscriptionStatus = ''active''\<rparr>"

section \<open>Vocabulary of the properties\<close>

text \<open>
  The row \<open>updateAfterPayment\<close> creates for the reference id \<open>c\<close>, and the row
  \<open>updateUserAfterPayment\<close> creates for the customer email \<open>m\<close>.
\<close>

definition placeholder_row :: "request \<Rightarrow> string \<Rightarrow> user" where
  "placeholder_row req c =
     \<lparr>cognitoId = Some c, email = Some (c @ ''@example.com''), username = ''user_'' @ c,
      firstName = column_of (body_firstName req), lastName = column_of (body_lastName req),
      profilePictureUrl = column_of (body_profilePictureUrl req),
      subscriptionStatus = ''active''\<rparr>"

definition form_row :: "request \<Rightarrow> string \<Rightarrow> user" where
  "form_row req m =
     \<lparr>cognitoId = None, email = Some m, username = text_of (body_username req),
      firstName = column_of (body_firstName req), lastName = column_of (body_lastName req),
      profilePictureUrl = column_of (body_profilePictureUrl req),
      subscriptionStatus = ''active''\<rparr>"

text \<open>The number of rows whose column \<open>col\<close> holds the key \<open>k\<close>.\<close>

definition rows_with :: "(user \<Rightarrow> string option) \<Rightarrow> string \<Rightarrow> table \<Rightarrow> nat" where
  "rows_with col k t = length (filter (\<lambda>u. col u = Some k) t)"

text \<open>
  \<open>only_sets_status a t t'\<close>: every row of \<open>t\<close> is still at its place in \<open>t'\<close>, with the
  status it had or with the status \<open>a\<close>, and every row added after them has the status \<open>a\<close>.
\<close>

definition only_sets_status :: "string \<Rightarrow> table \<Rightarrow> table \<Rightarrow> bool" where
  "only_sets_status a t t' =
     (length t \<le> length t'
      \<and> list_all2 (\<lambda>u u'. subscriptionStatus u' = subscriptionStatus u \<or> subscriptionStatus u' = a)
            t (take (length t) t')
      \<and> list_all (\<lambda>u. subscriptionStatus u = a) (drop (length t) t'))"

section \<open>Facts about the table operations\<close>

lemma store_respond: "store (respond t c b l) = t"
  by (simp add: respond_def)

lemma http_status_respond: "http_status (respond t c b l) = c"
  by (simp add: respond_def)

lemma sent_respond: "sent (respond t c b l) = b"
  by (simp add: respond_def)

lemma logged_respond: "logged (respond t c b l) = l"
  by (simp add: respond_def)

lemma update_row_SomeD:
  "update_row P f t = Some (r, t') \<Longrightarrow>
   \<exists>xs u ys. t = xs @ u # ys \<and> (\<forall>x\<in>set xs. \<not> P x) \<and> P u \<and> r = f u \<and> t' = xs @ f u # ys"
proof (induction t arbitrary: t')
  case Nil
  then show ?case by simp
next
  case (Cons a t)
  show ?case
  proof (cases "P a")
    case True
    with Cons.prems have "r = f a" "t' = f a # t" by auto
    with True show ?thesis by (intro exI[of _ "[]"] exI[of _ a] exI[of _ t]) simp
  next
    case False
    with Cons.prems obtain us where us: "update_row P f t = Some (r, us)" "t' = a # us"
      by (auto split: option.splits)
    from Cons.IH[OF us(1)] obtain xs u ys where
      "t = xs @ u # ys" "\<forall>x\<in>set xs. \<not> P x" "P u" "r = f u" "us = xs @ f u # ys" by blast
    with False us(2) show ?thesis
      by (intro exI[of _ "a # xs"] exI[of _ u] exI[of _ ys]) simp
  qed
qed

lemma update_row_None_iff: "update_row P f t = None \<longleftrightarrow> (\<forall>x\<in>set t. \<not> P x)"
  by (induction t) (auto split: option.splits)


lemma update_row_nth:
  assumes "update_row P f t = Some (r, t')"
  shows "length t' = length t \<and> (\<forall>i<length t. t' ! i = t ! i \<or> t' ! i = f (t ! i))"
proof -
  from update_row_SomeD[OF assms] obtain xs u ys where
    d: "t = xs @ u # ys" "t' = xs @ f u # ys" by blast
  then show ?thesis by (auto simp: nth_append nth_Cons')
qed




lemma find_update_row:
  "find P t = Some x \<Longrightarrow> update_row P f t \<noteq> None"
  by (auto simp: update_row_None_iff find_Some_iff)


lemma findUnique_found_update:
  assumes "findUnique E col (Str k) t = Inr (Some x)"
  shows "\<exists>r t'. update E col (Str k) f t = Inr (r, t')"
  using assms find_update_row[of "\<lambda>u. col u = Some k" t x f]
  by (auto simp: findUnique_def update_def split: if_splits option.splits)






lemma profile_data_keys:
  "cognitoId (profile_data req u) = cognitoId u" "email (profile_data req u) = email u"
  by (simp_all add: profile_data_def)

lemma update_SomeD:
  "update E col v f t = Inr (r, t') \<Longrightarrow>
     \<exists>k. v = Str k \<and> db_online E \<and> update_row (\<lambda>u. col u = Some k) f t = Some (r, t')"
  by (auto simp: update_def split: if_splits jsval.splits option.splits)

lemma create_SomeD:
  "create E n t = Inr (u, t') \<Longrightarrow> db_online E \<and> \<not> violates_unique E n t \<and> u = n \<and> t' = t @ [n]"
  by (auto simp: create_def split: if_splits)

lemma findUnique_NoneD:
  "findUnique E col (Str k) t = Inr None \<Longrightarrow> db_online E \<and> (\<forall>x\<in>set t. col x \<noteq> Some k)"
  by (auto simp: findUnique_def find_None_iff split: if_splits)


section \<open>What a mutating handler does to the table\<close>

lemma updateAfterPayment_shape:
  "(http_status (updateAfterPayment E req t) \<noteq> 200 \<and> store (updateAfterPayment E req t) = t)
   \<or> (\<exists>s c. \<not> falsy (body_sessionId req) \<and> \<not> falsy (body_firstName req)
         \<and> \<not> falsy (body_lastName req)
         \<and> sessions_retrieve E (body_sessionId req) = Inr s \<and> payment_status s = ''paid''
         \<and> client_reference_id s = Some c \<and> c \<noteq> [] \<and> db_online E
         \<and> ((\<exists>r t'. update_row (\<lambda>u. cognitoId u = Some c) (profile_data req) t = Some (r, t')
                  \<and> updateAfterPayment E req t = respond t' 200 (SuccessUser r) [])
            \<or> ((\<forall>x\<in>set t. cognitoId x \<noteq> Some c)
                \<and> \<not> violates_unique E (placeholder_row req c) t
                \<and> updateAfterPayment E req t
                    = respond (t @ [placeholder_row req c]) 200
                        (SuccessUser (placeholder_row req c)) [])))"
proof (cases "falsy (body_sessionId req) \<or> falsy (body_firstName req) \<or> falsy (body_lastName req)")
  case True
  then show ?thesis by (simp add: updateAfterPayment_def respond_def)
next
  case ok: False
  show ?thesis
  proof (cases "\<exists>s c. sessions_retrieve E (body_sessionId req) = Inr s
            \<and> payment_status s = ''paid'' \<and> client_reference_id s = Some c \<and> c \<noteq> []")
    case False
    with ok have "http_status (updateAfterPayment E req t) \<noteq> 200 \<and> store (updateAfterPayment E req t) = t"
      by (auto simp: updateAfterPayment_def verifyStripeSession_def respond_def
            split: sum.splits option.splits)
    then show ?thesis by blast
  next
    case True
    then obtain s c where s: "sessions_retrieve E (body_sessionId req) = Inr s"
      "payment_status s = ''paid''" "client_reference_id s = Some c" "c \<noteq> []" by blast
    let ?n = "placeholder_row req c"
    have unfold: "updateAfterPayment E req t =
      (case findUnique E cognitoId (Str c) t of
         Inl e \<Rightarrow> respond t 500 (SuccessFalse ''Internal server error.'')
                    [LogError ''Error updating user:'' e]
       | Inr (Some _) \<Rightarrow>
           (case update E cognitoId (Str c) (profile_data req) t of
              Inl e \<Rightarrow> respond t 500 (SuccessFalse ''Internal server error.'')
                         [LogError ''Error updating user:'' e]
            | Inr (u, t') \<Rightarrow> respond t' 200 (SuccessUser u) [])
       | Inr None \<Rightarrow>
           (case create E ?n t of
              Inl e \<Rightarrow> respond t 500 (SuccessFalse ''Internal server error.'')
                         [LogError ''Error updating user:'' e]
            | Inr (u, t') \<Rightarrow> respond t' 200 (SuccessUser u) []))"
      using ok s by (simp add: updateAfterPayment_def verifyStripeSession_def placeholder_row_def
            cong: sum.case_cong option.case_cong)
    show ?thesis
    proof (cases "findUnique E cognitoId (Str c) t")
      case (Inl e)
      then show ?thesis by (simp add: unfold respond_def)
    next
      case (Inr found)
      then have on: "db_online E" by (auto simp: findUnique_def split: if_splits)
      show ?thesis
      proof (cases found)
        case None
        note fu = Inr[unfolded None]
        show ?thesis
        proof (cases "create E ?n t")
          case (Inl e)
          with fu show ?thesis by (simp add: unfold respond_def)
        next
          case cr: (Inr p)
          obtain u t' where p: "p = (u, t')" by force
          from create_SomeD[OF cr[unfolded p]] have c': "\<not> violates_unique E ?n t" "u = ?n" "t' = t @ [?n]"
            by simp_all
          from fu cr p c' have "updateAfterPayment E req t = respond (t @ [?n]) 200 (SuccessUser ?n) []"
            by (simp add: unfold)
          with ok s on c'(1) findUnique_NoneD[OF fu] show ?thesis by blast
        qed
      next
        case (Some x)
        note fu = Inr[unfolded Some]
        from findUnique_found_update[OF fu, of "profile_data req"]
        obtain r t' where up: "update E cognitoId (Str c) (profile_data req) t = Inr (r, t')" by blast
        from update_SomeD[OF up] have ur: "update_row (\<lambda>u. cognitoId u = Some c) (profile_data req) t = Some (r, t')"
          by simp
        from fu up have "updateAfterPayment E req t = respond t' 200 (SuccessUser r) []"
          by (simp add: unfold)
        with ok s on ur show ?thesis by blast
      qed
    qed
  qed
qed


lemma updateUserAfterPayment_shape:
  "(http_status (updateUserAfterPayment E req t) \<noteq> 200
      \<and> store (updateUserAfterPayment E req t) = t)
   \<or> (\<exists>s m. \<not> falsy (body_sessionId req) \<and> \<not> falsy (body_firstName req)
         \<and> \<not> falsy (body_lastName req) \<and> \<not> falsy (body_username req)
         \<and> sessions_retrieve E (body_sessionId req) = Inr s
         \<and> customer_email s = Some m \<and> m \<noteq> [] \<and> db_online E
         \<and> ((\<exists>r t'. update_row (\<lambda>u. email u = Some m) (profile_data req) t = Some (r, t')
                  \<and> updateUserAfterPayment E req t = respond t' 200 (SuccessUser r) [])
            \<or> ((\<forall>x\<in>set t. email x \<noteq> Some m)
                \<and> \<not> violates_unique E (form_row req m) t
                \<and> updateUserAfterPayment E req t
                    = respond (t @ [form_row req m]) 200 (SuccessUser (form_row req m)) [])))"
proof (cases "falsy (body_sessionId req) \<or> falsy (body_firstName req)
                \<or> falsy (body_lastName req) \<or> falsy (body_username req)")
  case True
  then show ?thesis by (simp add: updateUserAfterPayment_def respond_def)
next
  case ok: False
  show ?thesis
  proof (cases "\<exists>s m. sessions_retrieve E (body_sessionId req) = Inr s
                       \<and> customer_email s = Some m \<and> m \<noteq> []")
    case False
    with ok have "http_status (updateUserAfterPayment E req t) \<noteq> 200
        \<and> store (updateUserAfterPayment E req t) = t"
      by (auto simp: updateUserAfterPayment_def respond_def split: sum.splits option.splits)
    then show ?thesis by blast
  next
    case True
    then obtain s m where s: "sessions_retrieve E (body_sessionId req) = Inr s"
      "customer_email s = Some m" "m \<noteq> []" by blast
    let ?n = "form_row req m"
    have unfold: "updateUserAfterPayment E req t =
      (case findUnique E email (Str m) t of
         Inl e \<Rightarrow> respond t 500 (ErrorBody ''Internal Server Error'')
                    [LogError ''Error updating user after payment:'' e]
       | Inr None \<Rightarrow>
           (case create E ?n t of
              Inl e \<Rightarrow> respond t 500 (ErrorBody ''Internal Server Error'')
                         [LogError ''Error updating user after payment:'' e]
            | Inr (u, t') \<Rightarrow> respond t' 200 (SuccessUser u) [])
       | Inr (Some _) \<Rightarrow>
           (case update E email (Str m) (profile_data req) t of
              Inl e \<Rightarrow> respond t 500 (ErrorBody ''Internal Server Error'')
                         [LogError ''Error updating user after payment:'' e]
            | Inr (u, t') \<Rightarrow> respond t' 200 (SuccessUser u) []))"
      using ok s by (simp add: updateUserAfterPayment_def form_row_def
            cong: sum.case_cong option.case_cong)
    show ?thesis
    proof (cases "findUnique E email (Str m) t")
      case (Inl e)
      then show ?thesis by (simp add: unfold respond_def)
    next
      case (Inr found)
      then have on: "db_online E" by (auto simp: findUnique_def split: if_splits)
      show ?thesis
      proof (cases found)
        case None
        note fu = Inr[unfolded None]
        show ?thesis
        proof (cases "create E ?n t")
          case (Inl e)
          with fu show ?thesis by (simp add: unfold respond_def)
        next
          case cr: (Inr p)
          obtain u t' where p: "p = (u, t')" by force
          from create_SomeD[OF cr[unfolded p]]
          have c': "\<not> violates_unique E ?n t" "u = ?n" "t' = t @ [?n]" by simp_all
          from fu cr p c'
          have "updateUserAfterPayment E req t = respond (t @ [?n]) 200 (SuccessUser ?n) []"
            by (simp add: unfold)
          with ok s on c'(1) findUnique_NoneD[OF fu] show ?thesis by blast
        qed
      next
        case (Some x)
        note fu = Inr[unfolded Some]
        from findUnique_found_update[OF fu, of "profile_data req"]
        obtain r t' where up: "update E email (Str m) (profile_data req) t = Inr (r, t')" by blast
        from update_SomeD[OF up]
        have ur: "update_row (\<lambda>u. email u = Some m) (profile_data req) t = Some (r, t')" by simp
        from fu up have "updateUserAfterPayment E req t = respond t' 200 (SuccessUser r) []"
          by (simp add: unfold)
        with ok s on ur show ?thesis by blast
      qed
    qed
  qed
qed

lemma handleStripeWebhook_shape:
  "store (handleStripeWebhook E req t) = t
   \<or> (\<exists>ev m r t'. constructEvent E (raw_body req) (header_stripe_signature req)
                    (STRIPE_WEBHOOK_SECRET E) = Inr ev
         \<and> event_type ev = ''checkout.session.completed''
         \<and> customer_email (data_object ev) = Some m \<and> m \<noteq> [] \<and> db_online E
         \<and> update_row (\<lambda>u. email u = Some m) (\<lambda>u. u\<lparr>subscriptionStatus := ''active''\<rparr>) t
             = Some (r, t')
         \<and> handleStripeWebhook E req t
             = respond t' 200 Received [LogInfo ''User subscription status updated to active.''])"
proof (cases "\<exists>ev m. constructEvent E (raw_body req) (header_stripe_signature req)
                        (STRIPE_WEBHOOK_SECRET E) = Inr ev
                     \<and> event_type ev = ''checkout.session.completed''
                     \<and> customer_email (data_object ev) = Some m \<and> m \<noteq> []")
  case False
  then have "store (handleStripeWebhook E req t) = t"
    by (auto simp: handleStripeWebhook_def store_respond split: sum.splits option.splits)
  then show ?thesis by blast
next
  case True
  then obtain ev m where ev: "constructEvent E (raw_body req) (header_stripe_signature req)
       (STRIPE_WEBHOOK_SECRET E) = Inr ev" "event_type ev = ''checkout.session.completed''"
      "customer_email (data_object ev) = Some m" "m \<noteq> []" by blast
  let ?f = "\<lambda>u. u\<lparr>subscriptionStatus := ''active''\<rparr>"
  show ?thesis
  proof (cases "update E email (Str m) ?f t")
    case (Inl e)
    with ev show ?thesis by (simp add: handleStripeWebhook_def store_respond)
  next
    case (Inr p)
    obtain r t' where p: "p = (r, t')" by force
    from update_SomeD[OF Inr[unfolded p]]
    have ur: "db_online E" "update_row (\<lambda>u. email u = Some m) ?f t = Some (r, t')" by simp_all
    from ev Inr p have "handleStripeWebhook E req t
        = respond t' 200 Received [LogInfo ''User subscription status updated to active.'']"
      by (simp add: handleStripeWebhook_def)
    with ev ur show ?thesis by blast
  qed
qed

lemma updateUserStatus_shape:
  "store (updateUserStatus E req t) = t
   \<or> (\<exists>k r t'. body_cognitoId req = Str k \<and> \<not> falsy (body_status req)
         \<and> update_row (\<lambda>u. cognitoId u = Some k)
               (\<lambda>u. u\<lparr>subscriptionStatus := text_of (body_status req)\<rparr>) t = Some (r, t')
         \<and> updateUserStatus E req t
             = respond t' 200 (MessageUser ''User status updated successfully'' r) [])"
proof (cases "falsy (body_cognitoId req) \<or> falsy (body_status req)")
  case True
  then show ?thesis by (simp add: updateUserStatus_def store_respond)
next
  case ok: False
  let ?f = "\<lambda>u. u\<lparr>subscriptionStatus := text_of (body_status req)\<rparr>"
  show ?thesis
  proof (cases "update E cognitoId (body_cognitoId req) ?f t")
    case (Inl e)
    with ok show ?thesis by (simp add: updateUserStatus_def store_respond)
  next
    case (Inr p)
    obtain r t' where p: "p = (r, t')" by force
    from update_SomeD[OF Inr[unfolded p]] obtain k where
      k: "body_cognitoId req = Str k" "update_row (\<lambda>u. cognitoId u = Some k) ?f t = Some (r, t')"
      by blast
    from ok Inr p have "updateUserStatus E req t
        = respond t' 200 (MessageUser ''User status updated successfully'' r) []"
      by (simp add: updateUserStatus_def)
    with ok k show ?thesis by blast
  qed
qed











section \<open>Repeating a request\<close>





section \<open>Status transitions\<close>

lemma only_sets_status_refl: "only_sets_status a t t"
  by (simp add: only_sets_status_def list_all2_same)

lemma only_sets_status_new: "subscriptionStatus n = a \<Longrightarrow> only_sets_status a t (t @ [n])"
  by (simp add: only_sets_status_def list_all2_same)

lemma only_sets_status_update:
  assumes "update_row P f t = Some (r, t')" and "\<And>u. subscriptionStatus (f u) = a"
  shows "only_sets_status a t t'"
proof -
  from update_row_SomeD[OF assms(1)] obtain xs u ys where
    "t = xs @ u # ys" "t' = xs @ f u # ys" by blast
  with assms(2) show ?thesis
    by (simp add: only_sets_status_def list_all2_same list_all2_appendI)
qed

lemma only_sets_status_nth:
  assumes "only_sets_status a t t'" and "i < length t"
  shows "i < length t' \<and> (subscriptionStatus (t' ! i) = subscriptionStatus (t ! i)
                            \<or> subscriptionStatus (t' ! i) = a)"
proof -
  from assms have le: "i < length t'" by (simp add: only_sets_status_def)
  from assms(1) have "list_all2 (\<lambda>u u'. subscriptionStatus u' = subscriptionStatus u
      \<or> subscriptionStatus u' = a) t (take (length t) t')" by (simp add: only_sets_status_def)
  from list_all2_nthD[OF this assms(2)] assms(2) le show ?thesis by simp
qed

lemma updateAfterPayment_status: "only_sets_status ''active'' t (store (updateAfterPayment E req t))"
  using updateAfterPayment_shape[of E req t]
  by (auto simp: store_respond only_sets_status_refl only_sets_status_new placeholder_row_def
        profile_data_def intro: only_sets_status_update)

lemma updateUserAfterPayment_status:
  "only_sets_status ''active'' t (store (updateUserAfterPayment E req t))"
  using updateUserAfterPayment_shape[of E req t]
  by (auto simp: store_respond only_sets_status_refl only_sets_status_new form_row_def
        profile_data_def intro: only_sets_status_update)

lemma handleStripeWebhook_status:
  "only_sets_status ''active'' t (store (handleStripeWebhook E req t))"
  using handleStripeWebhook_shape[of E req t]
  by (auto simp: store_respond only_sets_status_refl
        intro: only_sets_status_update)

lemma updateUserStatus_status:
  "only_sets_status (text_of (body_status req)) t (store (updateUserStatus E req t))"
  using updateUserStatus_shape[of E req t]
  by (auto simp: store_respond only_sets_status_refl
        intro: only_sets_status_update)

text \<open>
  Not every operation keeps an active row active: \<open>updateUserStatus\<close> writes the status
  the request carries.
  On the table holding Ada's active row, the request \<open>{cognitoId: u42, status: inactive}\<close>
  is answered 200 and leaves the row inactive.
\<close>

theorem status_update_downgrades_counterexample:
  "subscriptionStatus ada_row = ''active''
   \<and> updateUserStatus scenario_env
         (no_request\<lparr>body_cognitoId := Str ''u42'', body_status := Str ''inactive''\<rparr>) [ada_row]
       = respond [ada_row\<lparr>subscriptionStatus := ''inactive''\<rparr>] 200
           (MessageUser ''User status updated successfully''
              (ada_row\<lparr>subscriptionStatus := ''inactive''\<rparr>)) []"
  by (simp add: updateUserStatus_def scenario_env_def no_request_def update_def ada_row_def)

text \<open>
  Claim C1, amended. The three payment handlers \<open>updateAfterPayment\<close>,
  \<open>updateUserAfterPayment\<close> and \<open>handleStripeWebhook\<close> leave every row with the status it
  had or with the status \<open>active\<close>, and add rows only with the status \<open>active\<close>; so a row
  that is active stays active through them. \<open>updateUserStatus\<close> leaves every row with the
  status it had or with the status the request supplies.
\<close>

theorem reconciliation_only_activates:
  "only_sets_status ''active'' t (store (updateAfterPayment E req t))
   \<and> only_sets_status ''active'' t (store (updateUserAfterPayment E req t))
   \<and> only_sets_status ''active'' t (store (handleStripeWebhook E req t))
   \<and> only_sets_status (text_of (body_status req)) t (store (updateUserStatus E req t))"
  by (simp only: updateAfterPayment_status updateUserAfterPayment_status
        handleStripeWebhook_status updateUserStatus_status simp_thms)

text \<open>
  The webhook for \<open>ada@example.com\<close> on a table with an active row and an inactive row:
  the inactive row becomes active, the active row stays as it is.
\<close>

theorem reconciliation_only_activates_witness:
  "store (handleStripeWebhook scenario_env (webhook_delivery ''v1=good'' ''completed'')
            [ada_row, ada_email_row\<lparr>subscriptionStatus := ''inactive''\<rparr>])
     = [ada_row, ada_email_row]
   \<and> only_sets_status ''active'' [ada_row, ada_email_row\<lparr>subscriptionStatus := ''inactive''\<rparr>]
         [ada_row, ada_email_row]
   \<and> subscriptionStatus ada_row = ''active''"
  using reconciliation_only_activates
          [of "[ada_row, ada_email_row\<lparr>subscriptionStatus := ''inactive''\<rparr>]" scenario_env
              "webhook_delivery ''v1=good'' ''completed''"]
  by (simp add: handleStripeWebhook_def scenario_env_def webhook_delivery_def no_request_def
        sess_1_def ada_details_def customer_email_def update_def respond_def ada_row_def
        ada_email_row_def)

section \<open>Repeating a request: one row per key\<close>

lemma rows_with_update:
  assumes "update_row P f t = Some (r, t')" and "\<And>u. col (f u) = col u"
  shows "rows_with col k t' = rows_with col k t"
proof -
  from update_row_SomeD[OF assms(1)] obtain xs u ys where
    "t = xs @ u # ys" "t' = xs @ f u # ys" by blast
  with assms(2) show ?thesis by (simp add: rows_with_def)
qed


lemma rows_with_fresh:
  "\<forall>x\<in>set t. col x \<noteq> Some k \<Longrightarrow> col n = Some k \<Longrightarrow> rows_with col k (t @ [n]) = 1"
  by (simp add: rows_with_def filter_empty_conv[THEN iffD2])




text \<open>
  The unique constraints on \<open>cognitoId\<close> and \<open>email\<close> hold after every mutating handler
  when they held before it.
\<close>

lemma rows_with_create:
  assumes "\<not> violates_unique E n t" and "col = cognitoId \<or> col = email"
    and "rows_with col k t \<le> 1"
  shows "rows_with col k (t @ [n]) \<le> 1"
proof (cases "col n = Some k")
  case True
  with assms(1,2) have "\<forall>x\<in>set t. col x \<noteq> Some k"
    by (auto simp: violates_unique_def list_ex_iff)
  from rows_with_fresh[OF this True] show ?thesis by simp
next
  case False
  with assms(3) show ?thesis by (simp add: rows_with_def)
qed

lemma unique_keys_preserved:
  assumes col: "col = cognitoId \<or> col = email" and le: "rows_with col k t \<le> 1"
  shows "rows_with col k (store (updateAfterPayment E req t)) \<le> 1"
    and "rows_with col k (store (updateUserAfterPayment E req t)) \<le> 1"
    and "rows_with col k (store (handleStripeWebhook E req t)) \<le> 1"
    and "rows_with col k (store (updateUserStatus E req t)) \<le> 1"
proof -
  have keep: "rows_with col k t' \<le> Suc 0"
    if "update_row P f t = Some (r, t')" and "\<And>u. cognitoId (f u) = cognitoId u"
      and "\<And>u. email (f u) = email u" for P f r t'
    using rows_with_update[OF that(1), of col k] that(2,3) col le by auto
  have new: "rows_with col k (t @ [n]) \<le> Suc 0" if "\<not> violates_unique E n t" for n
    using rows_with_create[OF that col le] by simp
  consider "store (updateAfterPayment E req t) = t"
    | P r where "update_row P (profile_data req) t = Some (r, store (updateAfterPayment E req t))"
    | n where "\<not> violates_unique E n t" "store (updateAfterPayment E req t) = t @ [n]"
    using updateAfterPayment_shape[of E req t] by (auto simp: store_respond)
  then show "rows_with col k (store (updateAfterPayment E req t)) \<le> 1"
    by cases (use le in \<open>auto simp: profile_data_keys intro!: new keep\<close>)
  consider "store (updateUserAfterPayment E req t) = t"
    | P r where
        "update_row P (profile_data req) t = Some (r, store (updateUserAfterPayment E req t))"
    | n where "\<not> violates_unique E n t" "store (updateUserAfterPayment E req t) = t @ [n]"
    using updateUserAfterPayment_shape[of E req t] by (auto simp: store_respond)
  then show "rows_with col k (store (updateUserAfterPayment E req t)) \<le> 1"
    by cases (use le in \<open>auto simp: profile_data_keys intro!: new keep\<close>)
  consider "store (handleStripeWebhook E req t) = t"
    | P r where "update_row P (\<lambda>u. u\<lparr>subscriptionStatus := ''active''\<rparr>) t
                   = Some (r, store (handleStripeWebhook E req t))"
    using handleStripeWebhook_shape[of E req t] by (auto simp: store_respond)
  then show "rows_with col k (store (handleStripeWebhook E req t)) \<le> 1"
    by cases (use le in \<open>auto intro!: keep\<close>)
  consider "store (updateUserStatus E req t) = t"
    | P r where "update_row P (\<lambda>u. u\<lparr>subscriptionStatus := text_of (body_status req)\<rparr>) t
                   = Some (r, store (updateUserStatus E req t))"
    using updateUserStatus_shape[of E req t] by (auto simp: store_respond)
  then show "rows_with col k (store (updateUserStatus E req t)) \<le> 1"
    by cases (use le in \<open>auto intro!: keep\<close>)
qed






lemma ada_creates_by_reference:
  "updateAfterPayment scenario_env (ada_form ''sess_1'') [] =
     respond [ada_row] 200 (SuccessUser ada_row) []"
  by (simp add: updateAfterPayment_def scenario_env_def ada_form_def no_request_def
        verifyStripeSession_def sess_1_def findUnique_def create_def
        violates_unique_def column_of_def ada_row_def)

lemma ada_creates_by_email:
  "updateUserAfterPayment scenario_env (ada_form ''sess_1'') [] =
     respond [ada_email_row] 200 (SuccessUser ada_email_row) []"
  by (simp add: updateUserAfterPayment_def scenario_env_def ada_form_def no_request_def
        sess_1_def ada_details_def customer_email_def findUnique_def create_def
        violates_unique_def column_of_def ada_email_row_def)


section \<open>The query handlers leave the table alone\<close>

lemma fetchSessionData_store: "store (fetchSessionData E req t) = t"
  by (simp add: fetchSessionData_def store_respond split: sum.split option.split)

lemma checkSubscriptionStatus_store: "store (checkSubscriptionStatus E req t) = t"
  by (simp add: checkSubscriptionStatus_def store_respond split: sum.split list.split)

lemma checkUserStatus_store: "store (checkUserStatus E req t) = t"
  by (simp add: checkUserStatus_def store_respond split: sum.split option.split)

lemma getUser_store: "store (getUser E req t) = t"
  by (simp add: getUser_def store_respond split: sum.split)

text \<open>
  Claim C10. The four query handlers \<open>fetchSessionData\<close>, \<open>checkSubscriptionStatus\<close>,
  \<open>checkUserStatus\<close> and \<open>getUser\<close> return the table they were given, for every
  environment, request and table: on the branches that answer 200 and on the branches that
  answer 400, 404 or 500 alike.
\<close>

theorem read_endpoints_pure:
  "store (fetchSessionData E req t) = t
   \<and> store (checkSubscriptionStatus E req t) = t
   \<and> store (checkUserStatus E req t) = t
   \<and> store (getUser E req t) = t"
  by (simp only: fetchSessionData_store checkSubscriptionStatus_store
        checkUserStatus_store getUser_store simp_thms)

text \<open>
  On the table holding Ada's row: \<open>fetchSessionData\<close> for \<open>sess_1\<close> answers 200, and
  \<open>checkUserStatus\<close> without an email answers 500; the table is the same after both.
\<close>

theorem read_endpoints_pure_witness:
  "store (fetchSessionData scenario_env (no_request\<lparr>query_session_id := Str ''sess_1''\<rparr>)
            [ada_row]) = [ada_row]
   \<and> http_status (fetchSessionData scenario_env
                     (no_request\<lparr>query_session_id := Str ''sess_1''\<rparr>) [ada_row]) = 200
   \<and> store (checkUserStatus scenario_env no_request [ada_row]) = [ada_row]
   \<and> http_status (checkUserStatus scenario_env no_request [ada_row]) = 500"
  using read_endpoints_pure
          [of scenario_env "no_request\<lparr>query_session_id := Str ''sess_1''\<rparr>" "[ada_row]"]
        read_endpoints_pure [of scenario_env no_request "[ada_row]"]
  by (simp add: fetchSessionData_def checkUserStatus_def findUnique_def scenario_env_def
        no_request_def sess_1_def respond_def)

section \<open>Webhook intake\<close>

text \<open>
  Claim C4. When \<open>constructEvent\<close> throws, as it does for a signature that does not
  verify, \<open>handleStripeWebhook\<close> answers 400 and returns the table it was given. The
  outcome is a function of the table and of the thrown value alone: no field of an event is
  read, since no event was constructed.
\<close>

theorem webhook_fails_closed:
  assumes "constructEvent E (raw_body req) (header_stripe_signature req)
             (STRIPE_WEBHOOK_SECRET E) = Inl e"
  shows "handleStripeWebhook E req t = respond t 400 (WebhookErrorText e) [LogError ''Webhook error:'' e]
         \<and> http_status (handleStripeWebhook E req t) = 400
         \<and> store (handleStripeWebhook E req t) = t"
  using assms by (simp add: handleStripeWebhook_def respond_def)

text \<open>
  A forged signature on a well-formed \<open>checkout.session.completed\<close> payload for a row
  that is inactive: 400, and the row is still inactive.
\<close>

theorem webhook_fails_closed_witness:
  "constructEvent scenario_env ''completed'' (Some ''v1=forged'') (Some ''whsec'')
     = Inl (StripeError ''No signatures found matching the expected signature'')
   \<and> http_status (handleStripeWebhook scenario_env (webhook_delivery ''v1=forged'' ''completed'')
                    [ada_email_row\<lparr>subscriptionStatus := ''inactive''\<rparr>]) = 400
   \<and> store (handleStripeWebhook scenario_env (webhook_delivery ''v1=forged'' ''completed'')
              [ada_email_row\<lparr>subscriptionStatus := ''inactive''\<rparr>])
       = [ada_email_row\<lparr>subscriptionStatus := ''inactive''\<rparr>]"
proof -
  have c: "constructEvent scenario_env (raw_body (webhook_delivery ''v1=forged'' ''completed''))
             (header_stripe_signature (webhook_delivery ''v1=forged'' ''completed''))
             (STRIPE_WEBHOOK_SECRET scenario_env)
           = Inl (StripeError ''No signatures found matching the expected signature'')"
    by (simp add: scenario_env_def webhook_delivery_def no_request_def)
  have "constructEvent scenario_env ''completed'' (Some ''v1=forged'') (Some ''whsec'')
     = Inl (StripeError ''No signatures found matching the expected signature'')"
    by (simp add: scenario_env_def)
  with webhook_fails_closed[OF c, of "[ada_email_row\<lparr>subscriptionStatus := ''inactive''\<rparr>]"]
  show ?thesis by blast
qed

text \<open>
  An authenticated delivery is not always acknowledged. The signature verifies, the event
  is \<open>checkout.session.completed\<close> for \<open>ada@example.com\<close>, and no row has that email:
  \<open>prisma.user.update\<close> throws inside the \<open>try\<close> and the handler answers 400.
\<close>

theorem webhook_unmatched_email_counterexample:
  "constructEvent scenario_env ''completed'' (Some ''v1=good'') (Some ''whsec'')
     = Inr \<lparr>event_type = ''checkout.session.completed'', data_object = sess_1\<rparr>
   \<and> handleStripeWebhook scenario_env (webhook_delivery ''v1=good'' ''completed'') [ada_row]
     = respond [ada_row] 400 (WebhookErrorText RecordNotFound)
         [LogError ''Webhook error:'' RecordNotFound]"
  by (simp add: handleStripeWebhook_def scenario_env_def webhook_delivery_def no_request_def
        sess_1_def ada_details_def customer_email_def update_def ada_row_def)

text \<open>
  Claim C6, amended. For a delivery whose signature verifies, \<open>handleStripeWebhook\<close>
  answers 200 with \<open>{received: true}\<close> and leaves the table as it was when the event is of
  another kind than \<open>checkout.session.completed\<close>, and when it is of that kind and carries
  no customer email (absent, \<open>null\<close> or empty). It answers 200 with \<open>{received: true}\<close>
  when the event is of that kind, the database is reachable and a row has the customer
  email of the event.
\<close>

theorem webhook_acknowledges:
  assumes "constructEvent E (raw_body req) (header_stripe_signature req)
             (STRIPE_WEBHOOK_SECRET E) = Inr ev"
  shows "(event_type ev \<noteq> ''checkout.session.completed''
            \<longrightarrow> handleStripeWebhook E req t = respond t 200 Received [])
       \<and> (event_type ev = ''checkout.session.completed''
            \<and> (customer_email (data_object ev) = None \<or> customer_email (data_object ev) = Some [])
            \<longrightarrow> handleStripeWebhook E req t = respond t 200 Received [])
       \<and> (event_type ev = ''checkout.session.completed''
            \<and> customer_email (data_object ev) = Some m \<and> m \<noteq> []
            \<and> db_online E \<and> 1 \<le> rows_with email m t
            \<longrightarrow> http_status (handleStripeWebhook E req t) = 200
                \<and> sent (handleStripeWebhook E req t) = Received)"
proof (intro conjI impI)
  assume "event_type ev \<noteq> ''checkout.session.completed''"
  with assms show "handleStripeWebhook E req t = respond t 200 Received []"
    by (simp add: handleStripeWebhook_def)
next
  assume "event_type ev = ''checkout.session.completed''
            \<and> (customer_email (data_object ev) = None \<or> customer_email (data_object ev) = Some [])"
  with assms show "handleStripeWebhook E req t = respond t 200 Received []"
    by (auto simp: handleStripeWebhook_def)
next
  assume a: "event_type ev = ''checkout.session.completed''
            \<and> customer_email (data_object ev) = Some m \<and> m \<noteq> []
            \<and> db_online E \<and> 1 \<le> rows_with email m t"
  then have "\<exists>x\<in>set t. email x = Some m"
    by (auto simp: rows_with_def Suc_le_eq length_greater_0_conv filter_empty_conv
          simp del: length_greater_0_conv)
  then have "update_row (\<lambda>u. email u = Some m) (\<lambda>u. u\<lparr>subscriptionStatus := ''active''\<rparr>) t \<noteq> None"
    by (simp add: update_row_None_iff)
  with a assms show "http_status (handleStripeWebhook E req t) = 200"
    by (auto simp: handleStripeWebhook_def update_def respond_def)
  from \<open>update_row _ _ t \<noteq> None\<close> a assms show "sent (handleStripeWebhook E req t) = Received"
    by (auto simp: handleStripeWebhook_def update_def respond_def)
qed

text \<open>
  An \<open>invoice.paid\<close> event, a completed checkout without customer details, and a
  completed checkout for the email of an existing row.
\<close>

theorem webhook_acknowledges_witness:
  "handleStripeWebhook scenario_env (webhook_delivery ''v1=good'' ''other'') [ada_row]
     = respond [ada_row] 200 Received []
   \<and> handleStripeWebhook scenario_env (webhook_delivery ''v1=good'' ''completed-no-email'') [ada_row]
     = respond [ada_row] 200 Received []
   \<and> http_status (handleStripeWebhook scenario_env (webhook_delivery ''v1=good'' ''completed'')
                    [ada_email_row]) = 200
   \<and> sent (handleStripeWebhook scenario_env (webhook_delivery ''v1=good'' ''completed'')
             [ada_email_row]) = Received"
proof -
  let ?E = scenario_env
  have c1: "constructEvent ?E (raw_body (webhook_delivery ''v1=good'' ''other''))
              (header_stripe_signature (webhook_delivery ''v1=good'' ''other''))
              (STRIPE_WEBHOOK_SECRET ?E)
            = Inr \<lparr>event_type = ''invoice.paid'', data_object = sess_1\<rparr>"
    by (simp add: scenario_env_def webhook_delivery_def no_request_def)
  have c2: "constructEvent ?E (raw_body (webhook_delivery ''v1=good'' ''completed-no-email''))
              (header_stripe_signature (webhook_delivery ''v1=good'' ''completed-no-email''))
              (STRIPE_WEBHOOK_SECRET ?E)
            = Inr \<lparr>event_type = ''checkout.session.completed'',
                   data_object = sess_1\<lparr>session_customer_details := None\<rparr>\<rparr>"
    by (simp add: scenario_env_def webhook_delivery_def no_request_def)
  have c3: "constructEvent ?E (raw_body (webhook_delivery ''v1=good'' ''completed''))
              (header_stripe_signature (webhook_delivery ''v1=good'' ''completed''))
              (STRIPE_WEBHOOK_SECRET ?E)
            = Inr \<lparr>event_type = ''checkout.session.completed'', data_object = sess_1\<rparr>"
    by (simp add: scenario_env_def webhook_delivery_def no_request_def)
  have e2: "customer_email (sess_1\<lparr>session_customer_details := None\<rparr>) = None"
    by (simp add: customer_email_def)
  have e3: "customer_email sess_1 = Some ''ada@example.com''"
    by (simp add: customer_email_def sess_1_def ada_details_def)
  have on: "db_online ?E" by (simp add: scenario_env_def)
  have r: "1 \<le> rows_with email ''ada@example.com'' [ada_email_row]"
    by (simp add: rows_with_def ada_email_row_def)
  from webhook_acknowledges[OF c1, of "[ada_row]" "[]"]
  have a: "handleStripeWebhook ?E (webhook_delivery ''v1=good'' ''other'') [ada_row]
             = respond [ada_row] 200 Received []" by simp
  from webhook_acknowledges[OF c2, of "[ada_row]" "[]"] e2
  have b: "handleStripeWebhook ?E (webhook_delivery ''v1=good'' ''completed-no-email'') [ada_row]
             = respond [ada_row] 200 Received []" by simp
  from webhook_acknowledges[OF c3, of "[ada_email_row]" "''ada@example.com''"] e3 on r
  have c: "http_status (handleStripeWebhook ?E (webhook_delivery ''v1=good'' ''completed'')
                          [ada_email_row]) = 200
           \<and> sent (handleStripeWebhook ?E (webhook_delivery ''v1=good'' ''completed'')
                     [ada_email_row]) = Received" by simp
  from a b c show ?thesis by blast
qed

section \<open>Resolving a session to a key\<close>

lemma update_row_key:
  assumes "update_row (\<lambda>u. col u = Some k) f t = Some (r, t')" and "\<And>u. col (f u) = col u"
  shows "col r = Some k"
proof -
  from update_row_SomeD[OF assms(1)] obtain u where "col u = Some k" "r = f u" by blast
  with assms(2) show ?thesis by simp
qed

text \<open>
  There is no fall-back from the reference id to the customer email. Session
  \<open>sess_email_only\<close> is paid, has no reference id and has the customer email
  \<open>ada@example.com\<close>; \<open>updateAfterPayment\<close> answers 400 for it.
\<close>

theorem no_email_fallback_counterexample:
  "sessions_retrieve scenario_env (body_sessionId (ada_form ''sess_email_only''))
     = Inr sess_email_only
   \<and> payment_status sess_email_only = ''paid''
   \<and> client_reference_id sess_email_only = None
   \<and> customer_email sess_email_only = Some ''ada@example.com''
   \<and> updateAfterPayment scenario_env (ada_form ''sess_email_only'') []
       = respond [] 400 (SuccessFalse ''Cognito ID not found in session.'') []"
  by (simp add: updateAfterPayment_def verifyStripeSession_def scenario_env_def ada_form_def
        no_request_def sess_email_only_def ada_details_def customer_email_def)

text \<open>
  Claim C7, amended. Each handler resolves a retrieved session by one correlator only.
  \<open>updateAfterPayment\<close> uses the client reference id: for a paid session whose reference
  id is absent or empty it answers 400 \<open>Cognito ID not found in session.\<close>, whatever the
  customer email is, and where it answers 200 the row it returns carries the non-empty
  reference id of the session as its \<open>cognitoId\<close>. \<open>updateUserAfterPayment\<close> uses the
  customer email: for a session whose customer email is absent or empty it answers 400
  \<open>Customer email not found in session.\<close>, whatever the reference id is, and where it
  answers 200 the row it returns carries the non-empty customer email of the session.
\<close>

theorem resolver_single_correlator:
  assumes "sessions_retrieve E (body_sessionId req) = Inr s"
  shows "(\<not> falsy (body_sessionId req) \<and> \<not> falsy (body_firstName req)
            \<and> \<not> falsy (body_lastName req) \<and> payment_status s = ''paid''
            \<and> (client_reference_id s = None \<or> client_reference_id s = Some [])
          \<longrightarrow> updateAfterPayment E req t
                = respond t 400 (SuccessFalse ''Cognito ID not found in session.'') [])
       \<and> (http_status (updateAfterPayment E req t) = 200
          \<longrightarrow> (\<exists>c u. client_reference_id s = Some c \<and> c \<noteq> []
                     \<and> sent (updateAfterPayment E req t) = SuccessUser u
                     \<and> cognitoId u = Some c))
       \<and> (\<not> falsy (body_sessionId req) \<and> \<not> falsy (body_firstName req)
            \<and> \<not> falsy (body_lastName req) \<and> \<not> falsy (body_username req)
            \<and> (customer_email s = None \<or> customer_email s = Some [])
          \<longrightarrow> updateUserAfterPayment E req t
                = respond t 400 (ErrorBody ''Customer email not found in session.'') [])
       \<and> (http_status (updateUserAfterPayment E req t) = 200
          \<longrightarrow> (\<exists>m u. customer_email s = Some m \<and> m \<noteq> []
                     \<and> sent (updateUserAfterPayment E req t) = SuccessUser u
                     \<and> email u = Some m))"
proof (intro conjI impI)
  assume "\<not> falsy (body_sessionId req) \<and> \<not> falsy (body_firstName req)
            \<and> \<not> falsy (body_lastName req) \<and> payment_status s = ''paid''
            \<and> (client_reference_id s = None \<or> client_reference_id s = Some [])"
  with assms show "updateAfterPayment E req t
                = respond t 400 (SuccessFalse ''Cognito ID not found in session.'') []"
    by (auto simp: updateAfterPayment_def verifyStripeSession_def)
next
  assume ok: "http_status (updateAfterPayment E req t) = 200"
  with updateAfterPayment_shape[of E req t] assms
  obtain c where c: "client_reference_id s = Some c" "c \<noteq> []"
    and alt: "(\<exists>r t'. update_row (\<lambda>u. cognitoId u = Some c) (profile_data req) t = Some (r, t')
                  \<and> updateAfterPayment E req t = respond t' 200 (SuccessUser r) [])
            \<or> updateAfterPayment E req t
                    = respond (t @ [placeholder_row req c]) 200
                        (SuccessUser (placeholder_row req c)) []"
    by auto
  from alt show "\<exists>c u. client_reference_id s = Some c \<and> c \<noteq> []
                     \<and> sent (updateAfterPayment E req t) = SuccessUser u
                     \<and> cognitoId u = Some c"
  proof
    assume "\<exists>r t'. update_row (\<lambda>u. cognitoId u = Some c) (profile_data req) t = Some (r, t')
                  \<and> updateAfterPayment E req t = respond t' 200 (SuccessUser r) []"
    then obtain r t' where ur: "update_row (\<lambda>u. cognitoId u = Some c) (profile_data req) t = Some (r, t')"
      and out: "updateAfterPayment E req t = respond t' 200 (SuccessUser r) []" by blast
    from update_row_key[OF ur] have "cognitoId r = Some c" by (simp add: profile_data_keys)
    with c out show ?thesis by (simp add: sent_respond)
  next
    assume "updateAfterPayment E req t
              = respond (t @ [placeholder_row req c]) 200 (SuccessUser (placeholder_row req c)) []"
    with c show ?thesis by (simp add: sent_respond placeholder_row_def)
  qed
next
  assume "\<not> falsy (body_sessionId req) \<and> \<not> falsy (body_firstName req)
            \<and> \<not> falsy (body_lastName req) \<and> \<not> falsy (body_username req)
            \<and> (customer_email s = None \<or> customer_email s = Some [])"
  with assms show "updateUserAfterPayment E req t
                = respond t 400 (ErrorBody ''Customer email not found in session.'') []"
    by (auto simp: updateUserAfterPayment_def)
next
  assume ok: "http_status (updateUserAfterPayment E req t) = 200"
  with updateUserAfterPayment_shape[of E req t] assms
  obtain m where m: "customer_email s = Some m" "m \<noteq> []"
    and alt: "(\<exists>r t'. update_row (\<lambda>u. email u = Some m) (profile_data req) t = Some (r, t')
                  \<and> updateUserAfterPayment E req t = respond t' 200 (SuccessUser r) [])
            \<or> updateUserAfterPayment E req t
                    = respond (t @ [form_row req m]) 200 (SuccessUser (form_row req m)) []"
    by auto
  from alt show "\<exists>m u. customer_email s = Some m \<and> m \<noteq> []
                     \<and> sent (updateUserAfterPayment E req t) = SuccessUser u
                     \<and> email u = Some m"
  proof
    assume "\<exists>r t'. update_row (\<lambda>u. email u = Some m) (profile_data req) t = Some (r, t')
                  \<and> updateUserAfterPayment E req t = respond t' 200 (SuccessUser r) []"
    then obtain r t' where ur: "update_row (\<lambda>u. email u = Some m) (profile_data req) t = Some (r, t')"
      and out: "updateUserAfterPayment E req t = respond t' 200 (SuccessUser r) []" by blast
    from update_row_key[OF ur] have "email r = Some m" by (simp add: profile_data_keys)
    with m out show ?thesis by (simp add: sent_respond)
  next
    assume "updateUserAfterPayment E req t
              = respond (t @ [form_row req m]) 200 (SuccessUser (form_row req m)) []"
    with m show ?thesis by (simp add: sent_respond form_row_def)
  qed
qed

text \<open>
  The four cases on the empty table: a session with an email and no reference id, a session
  with a reference id and no email, and \<open>sess_1\<close>, which has both, through each
  handler.
\<close>

theorem resolver_single_correlator_witness:
  "updateAfterPayment scenario_env (ada_form ''sess_email_only'') []
     = respond [] 400 (SuccessFalse ''Cognito ID not found in session.'') []
   \<and> updateUserAfterPayment scenario_env (ada_form ''sess_ref_only'') []
     = respond [] 400 (ErrorBody ''Customer email not found in session.'') []
   \<and> http_status (updateAfterPayment scenario_env (ada_form ''sess_1'') []) = 200
   \<and> http_status (updateUserAfterPayment scenario_env (ada_form ''sess_1'') []) = 200
   \<and> (\<exists>u. sent (updateAfterPayment scenario_env (ada_form ''sess_1'') []) = SuccessUser u
          \<and> cognitoId u = Some ''u42'')
   \<and> (\<exists>u. sent (updateUserAfterPayment scenario_env (ada_form ''sess_1'') []) = SuccessUser u
          \<and> email u = Some ''ada@example.com'')"
proof -
  let ?E = scenario_env
  have f: "\<not> falsy (body_sessionId (ada_form sid)) \<longleftrightarrow> sid \<noteq> []"
    "\<not> falsy (body_firstName (ada_form sid))" "\<not> falsy (body_lastName (ada_form sid))"
    "\<not> falsy (body_username (ada_form sid))" for sid
    by (simp_all add: ada_form_def no_request_def)
  have s1: "sessions_retrieve ?E (body_sessionId (ada_form ''sess_1'')) = Inr sess_1"
    and s2: "sessions_retrieve ?E (body_sessionId (ada_form ''sess_email_only''))
               = Inr sess_email_only"
    and s3: "sessions_retrieve ?E (body_sessionId (ada_form ''sess_ref_only'')) = Inr sess_ref_only"
    by (simp_all add: scenario_env_def ada_form_def no_request_def)
  have k1: "client_reference_id sess_1 = Some ''u42''"
    "customer_email sess_1 = Some ''ada@example.com''"
    and k2: "payment_status sess_email_only = ''paid''" "client_reference_id sess_email_only = None"
    and k3: "customer_email sess_ref_only = None"
    by (simp_all add: sess_1_def sess_email_only_def sess_ref_only_def customer_email_def
          ada_details_def)
  have h1: "http_status (updateAfterPayment ?E (ada_form ''sess_1'') []) = 200"
    by (simp add: ada_creates_by_reference http_status_respond)
  have h2: "http_status (updateUserAfterPayment ?E (ada_form ''sess_1'') []) = 200"
    by (simp add: ada_creates_by_email http_status_respond)
  from resolver_single_correlator[OF s2, of "[]"] f k2
  have a: "updateAfterPayment ?E (ada_form ''sess_email_only'') []
     = respond [] 400 (SuccessFalse ''Cognito ID not found in session.'') []" by simp
  from resolver_single_correlator[OF s3, of "[]"] f k3
  have b: "updateUserAfterPayment ?E (ada_form ''sess_ref_only'') []
     = respond [] 400 (ErrorBody ''Customer email not found in session.'') []" by simp
  from resolver_single_correlator[OF s1, of "[]"] h1 k1
  have c: "\<exists>u. sent (updateAfterPayment ?E (ada_form ''sess_1'') []) = SuccessUser u
          \<and> cognitoId u = Some ''u42''" by simp
  from resolver_single_correlator[OF s1, of "[]"] h2 k1
  have d: "\<exists>u. sent (updateUserAfterPayment ?E (ada_form ''sess_1'') []) = SuccessUser u
          \<and> email u = Some ''ada@example.com''" by simp
  from a b c d h1 h2 show ?thesis by blast
qed

lemma updateAfterPayment_unpaid:
  assumes "sessions_retrieve E (body_sessionId req) = Inr s" and "payment_status s \<noteq> ''paid''"
    and "\<not> falsy (body_sessionId req)" "\<not> falsy (body_firstName req)" "\<not> falsy (body_lastName req)"
  shows "updateAfterPayment E req t
           = respond t 400 (SuccessFalse ''Invalid or unpaid session ID.'') []"
  using assms by (simp add: updateAfterPayment_def verifyStripeSession_def)

text \<open>
  Claim C8 says that a session which is retrieved but not paid is answered 400 and that no
  row is created or updated. \<open>updateAfterPayment\<close> does that (lemma
  \<open>updateAfterPayment_unpaid\<close>). \<open>updateUserAfterPayment\<close> never reads
  \<open>payment_status\<close>: for the unpaid session \<open>sess_unpaid\<close> on the empty table it creates
  a row with the status \<open>active\<close> and answers 200.
\<close>

theorem unpaid_session_reconciled:
  "sessions_retrieve scenario_env (body_sessionId (ada_form ''sess_unpaid'')) = Inr sess_unpaid
   \<and> payment_status sess_unpaid = ''unpaid''
   \<and> updateUserAfterPayment scenario_env (ada_form ''sess_unpaid'') []
       = respond [ada_email_row] 200 (SuccessUser ada_email_row) []
   \<and> subscriptionStatus ada_email_row = ''active''"
  by (simp add: updateUserAfterPayment_def scenario_env_def ada_form_def no_request_def
        sess_unpaid_def ada_details_def customer_email_def findUnique_def create_def
        violates_unique_def column_of_def ada_email_row_def)

section \<open>The rows the payment handlers create\<close>

lemma update_row_length: "update_row P f t = Some (r, t') \<Longrightarrow> length t' = length t"
  using update_row_nth by blast

text \<open>
  A creation with a synthesized identity is not flagged. The form carries the username
  \<open>ada\<close> and the session carries the customer email \<open>ada@example.com\<close>; the row
  \<open>updateAfterPayment\<close> creates has the username \<open>user_u42\<close> and the email
  \<open>u42@example.com\<close>, the response is the 200 of any other call, and nothing is written
  to the console.
\<close>

theorem placeholder_identity_counterexample:
  "body_username (ada_form ''sess_1'') = Str ''ada''
   \<and> sessions_retrieve scenario_env (body_sessionId (ada_form ''sess_1'')) = Inr sess_1
   \<and> customer_email sess_1 = Some ''ada@example.com''
   \<and> updateAfterPayment scenario_env (ada_form ''sess_1'') []
       = respond [ada_row] 200 (SuccessUser ada_row) []
   \<and> username ada_row = ''user_u42''
   \<and> email ada_row = Some ''u42@example.com''
   \<and> logged (updateAfterPayment scenario_env (ada_form ''sess_1'') []) = []"
  by (simp add: ada_creates_by_reference logged_respond)
     (simp add: ada_form_def no_request_def scenario_env_def sess_1_def customer_email_def
        ada_details_def ada_row_def)

text \<open>
  Claim C9, amended. No creation is flagged as a degraded case. When
  \<open>updateAfterPayment\<close> adds a row, the row is keyed by the reference id of the session,
  the answer is 200 with that row, and nothing is written to the console. When
  \<open>updateUserAfterPayment\<close> adds a row, the row has no \<open>cognitoId\<close>, the username of
  the request and the customer email of the session, neither of them synthesized, the answer
  is 200 with that row, and nothing is written to the console. The username and the email
  of the row \<open>updateAfterPayment\<close> adds are left open.
\<close>

theorem created_rows:
  "(length t < length (store (updateAfterPayment E req t))
      \<longrightarrow> (\<exists>s c n. sessions_retrieve E (body_sessionId req) = Inr s
                  \<and> client_reference_id s = Some c
                  \<and> store (updateAfterPayment E req t) = t @ [n]
                  \<and> cognitoId n = Some c
                  \<and> http_status (updateAfterPayment E req t) = 200
                  \<and> sent (updateAfterPayment E req t) = SuccessUser n
                  \<and> logged (updateAfterPayment E req t) = []))
   \<and> (length t < length (store (updateUserAfterPayment E req t))
      \<longrightarrow> (\<exists>s m n. sessions_retrieve E (body_sessionId req) = Inr s
                  \<and> customer_email s = Some m
                  \<and> store (updateUserAfterPayment E req t) = t @ [n]
                  \<and> cognitoId n = None
                  \<and> username n = text_of (body_username req)
                  \<and> email n = Some m
                  \<and> http_status (updateUserAfterPayment E req t) = 200
                  \<and> sent (updateUserAfterPayment E req t) = SuccessUser n
                  \<and> logged (updateUserAfterPayment E req t) = []))"
proof (intro conjI impI)
  assume grow: "length t < length (store (updateAfterPayment E req t))"
  with updateAfterPayment_shape[of E req t]
  obtain s c where "sessions_retrieve E (body_sessionId req) = Inr s"
    "client_reference_id s = Some c"
    "updateAfterPayment E req t
       = respond (t @ [placeholder_row req c]) 200 (SuccessUser (placeholder_row req c)) []"
    by (auto simp: store_respond dest: update_row_length)
  then show "\<exists>s c n. sessions_retrieve E (body_sessionId req) = Inr s
                  \<and> client_reference_id s = Some c
                  \<and> store (updateAfterPayment E req t) = t @ [n]
                  \<and> cognitoId n = Some c
                  \<and> http_status (updateAfterPayment E req t) = 200
                  \<and> sent (updateAfterPayment E req t) = SuccessUser n
                  \<and> logged (updateAfterPayment E req t) = []"
    by (simp add: respond_def placeholder_row_def)
next
  assume grow: "length t < length (store (updateUserAfterPayment E req t))"
  with updateUserAfterPayment_shape[of E req t]
  obtain s m where "sessions_retrieve E (body_sessionId req) = Inr s"
    "customer_email s = Some m"
    "updateUserAfterPayment E req t
       = respond (t @ [form_row req m]) 200 (SuccessUser (form_row req m)) []"
    by (auto simp: store_respond dest: update_row_length)
  then show "\<exists>s m n. sessions_retrieve E (body_sessionId req) = Inr s
                  \<and> customer_email s = Some m
                  \<and> store (updateUserAfterPayment E req t) = t @ [n]
                  \<and> cognitoId n = None
                  \<and> username n = text_of (body_username req)
                  \<and> email n = Some m
                  \<and> http_status (updateUserAfterPayment E req t) = 200
                  \<and> sent (updateUserAfterPayment E req t) = SuccessUser n
                  \<and> logged (updateUserAfterPayment E req t) = []"
    by (simp add: respond_def form_row_def)
qed

text \<open>
  Ada's form for \<open>sess_1\<close> on the empty table, through each handler.
\<close>

theorem created_rows_witness:
  "length ([] :: table) < length (store (updateAfterPayment scenario_env (ada_form ''sess_1'') []))
   \<and> store (updateAfterPayment scenario_env (ada_form ''sess_1'') []) = [ada_row]
   \<and> logged (updateAfterPayment scenario_env (ada_form ''sess_1'') []) = []
   \<and> length ([] :: table)
        < length (store (updateUserAfterPayment scenario_env (ada_form ''sess_1'') []))
   \<and> store (updateUserAfterPayment scenario_env (ada_form ''sess_1'') []) = [ada_email_row]
   \<and> logged (updateUserAfterPayment scenario_env (ada_form ''sess_1'') []) = []"
  using created_rows[of "[]" scenario_env "ada_form ''sess_1''"]
  by (simp add: ada_creates_by_reference ada_creates_by_email store_respond logged_respond)




end
